theory Spec2Isabelle
  imports Main "HOL-Library.Word"
begin

section \<open>Package indexer: data model\<close>

text \<open>
  The theory embeds \<^verbatim>\<open>indexer/indexer.go\<close> and \<^verbatim>\<open>internal/beeclient/api/bytes.go\<close>.
  A Go byte is a HOL character (both are 8 bits wide), so that byte slices and Go
  strings are both lists of characters.
\<close>

type_synonym byte = char

text \<open>\<^verbatim>\<open>type Article struct { path string; data []byte }\<close>\<close>

record Article =
  path :: string
  data :: "byte list"

text \<open>\<^verbatim>\<open>func (a Article) Path() string { return a.path }\<close>\<close>

definition Article_Path :: "Article \<Rightarrow> string" where
  "Article_Path a = path a"

text \<open>
  \<^verbatim>\<open>func (a Article) Data() []byte { return a.Data() }\<close>
  The body is an unconditional call of the method itself. The result \<open>None\<close> stands
  for a call that does not return.
\<close>

partial_function (option) Article_Data :: "Article \<Rightarrow> byte list option" where
  "Article_Data a = Article_Data a"

text \<open>
  \<^verbatim>\<open>type IndexEntry struct { Path string; Metadata map[string]string }\<close>
  The metadata maps are built once and never written again by this package, so they
  are kept as values.
\<close>

record IndexEntry =
  Path :: string
  Metadata :: "string \<rightharpoonup> string"

subsection \<open>The store of entry maps\<close>

text \<open>
  A Go value of type \<^verbatim>\<open>map[string]IndexEntry\<close> is a reference to a mutable table.
  The store maps references to the current contents of the tables; \<open>fresh\<close> is the
  next unused reference.
\<close>

type_synonym addr = nat
type_synonym entry_map = "string \<rightharpoonup> IndexEntry"

record store =
  maps :: "addr \<Rightarrow> entry_map"
  fresh :: addr

text \<open>\<^verbatim>\<open>make(map[string]IndexEntry)\<close>: a new empty table and the reference to it.\<close>

definition make_map :: "store \<Rightarrow> addr \<times> store" where
  "make_map h = (fresh h, h\<lparr>maps := (maps h)(fresh h := Map.empty), fresh := Suc (fresh h)\<rparr>)"

subsection \<open>The decoder (package gozim), as the indexer sees it\<close>

text \<open>
  The decoder is an external library. An article of the archive is the record of its
  exported fields and of the results of its accessor methods; an accessor that can
  fail returns the error message on the left.
\<close>

record zim_Article =
  EntryType :: "16 word"
  Title :: string
  Namespace :: char
  FullURL :: string
  MimeType :: string
  RedirectIndex :: "string + 32 word"
  Data :: "string + byte list"

text \<open>The entry types of the ZIM format that the decoder exports as constants.\<close>

definition RedirectEntry :: "16 word" where
  "RedirectEntry = 0xffff"

definition LinkTargetEntry :: "16 word" where
  "LinkTargetEntry = 0xfffe"

definition DeletedEntry :: "16 word" where
  "DeletedEntry = 0xfffd"

text \<open>
  The reader: \<open>titlePtrs\<close> is the sequence of URL indexes that
  \<^verbatim>\<open>ListTitlesPtrIterator\<close> passes to its callback, in order.
\<close>

record ZimReader =
  ArticleCount :: "32 word"
  titlePtrs :: "32 word list"
  ArticleAtURLIdx :: "32 word \<Rightarrow> string + zim_Article"
  MainPage :: "string + zim_Article option"

subsection \<open>Errors\<close>

text \<open>
  Every error value that a function of the package can return, tagged by where it was
  created. \<open>ErrNoIndex\<close> is the value of \<^verbatim>\<open>errors.New("no index found in the ZIM")\<close>.
\<close>

datatype error =
    ErrNoIndex
  | ErrZim string
  | ErrTemplateUndefined string
  | ErrTemplate string
  | ErrTarball string
  | ErrCreate string
  | ErrIO
  | ErrWriteTooLong
  | ErrMissedWriting nat

subsection \<open>The indexer\<close>

text \<open>
  \<^verbatim>\<open>type SwarmWikiIndexer struct { mu sync.Mutex; ZimPath string; Z *zim.ZimReader;
  entries map[string]IndexEntry; root swarm.Address }\<close>
  The field \<open>entries\<close> holds a reference into the store. The mutex and the unused
  root address are left out.
\<close>

record SwarmWikiIndexer =
  ZimPath :: string
  Z :: ZimReader
  entries :: addr

text \<open>\<^verbatim>\<open>func New(zimPath string) (*SwarmWikiIndexer, error)\<close>; \<open>NewReader\<close> is \<^verbatim>\<open>zim.NewReader\<close>.\<close>

definition New :: "(string \<Rightarrow> string + ZimReader) \<Rightarrow> string \<Rightarrow> store \<Rightarrow> (error + SwarmWikiIndexer) \<times> store" where
  "New NewReader zimPath h =
     (case NewReader zimPath of
        Inl err \<Rightarrow> (Inl (ErrZim err), h)
      | Inr z \<Rightarrow>
          (let (m, h') = make_map h
           in (Inr \<lparr>ZimPath = zimPath, Z = z, entries = m\<rparr>, h')))"

text \<open>\<^verbatim>\<open>idx.entries[entryPath] = IndexEntry{Path: entryPath, Metadata: metadata}\<close>\<close>

definition AddEntry :: "SwarmWikiIndexer \<Rightarrow> string \<Rightarrow> (string \<rightharpoonup> string) \<Rightarrow> store \<Rightarrow> store" where
  "AddEntry idx entryPath metadata h =
     h\<lparr>maps := (maps h)(entries idx :=
          (maps h (entries idx))(entryPath \<mapsto> \<lparr>Path = entryPath, Metadata = metadata\<rparr>))\<rparr>"

text \<open>\<^verbatim>\<open>func (idx *SwarmWikiIndexer) Entries() map[string]IndexEntry { return idx.entries }\<close>\<close>

definition Entries :: "SwarmWikiIndexer \<Rightarrow> addr" where
  "Entries idx = entries idx"

text \<open>A sequence of \<open>AddEntry\<close> calls, first call first.\<close>

fun AddEntry_calls :: "SwarmWikiIndexer \<Rightarrow> (string \<times> (string \<rightharpoonup> string)) list \<Rightarrow> store \<Rightarrow> store" where
  "AddEntry_calls idx [] h = h"
| "AddEntry_calls idx ((p, md) # cs) h = AddEntry_calls idx cs (AddEntry idx p md h)"


section \<open>Templates and paths\<close>

text \<open>
  \<^verbatim>\<open>path.Base\<close> of the Go library: the empty path gives \<open>''.''\<close>, trailing slashes are
  removed, then everything up to the last slash; a path of slashes only gives \<open>''/''\<close>.
\<close>

definition path_Base :: "string \<Rightarrow> string" where
  "path_Base p =
     (if p = [] then ''.''
      else
        (let q = rev (dropWhile (\<lambda>c. c = CHR ''/'') (rev p));
             r = rev (takeWhile (\<lambda>c. c \<noteq> CHR ''/'') (rev q))
         in if r = [] then ''/'' else r))"

text \<open>\<^verbatim>\<open>filepath.Base\<close> on a system whose path separator is the slash.\<close>

definition filepath_Base :: "string \<Rightarrow> string" where
  "filepath_Base p = path_Base p"

text \<open>
  The files under \<^verbatim>\<open>templates/\<close> are embedded at build time and parsed once by
  \<^verbatim>\<open>init\<close> into the package variable \<^verbatim>\<open>templates\<close>. The set of parsed templates is a
  parameter: a template maps the data it is executed with to the bytes it writes, or
  to the message of the error it stops with.
\<close>

type_synonym template = "(string \<rightharpoonup> string) \<Rightarrow> string + byte list"
type_synonym template_set = "string \<rightharpoonup> template"

text \<open>\<^verbatim>\<open>templates.ExecuteTemplate(&buf, name, tmplData)\<close> on an empty buffer.\<close>

definition ExecuteTemplate :: "template_set \<Rightarrow> string \<Rightarrow> (string \<rightharpoonup> string) \<Rightarrow> error + byte list" where
  "ExecuteTemplate templates name tmplData =
     (case templates name of
        None \<Rightarrow> Inl (ErrTemplateUndefined name)
      | Some t \<Rightarrow> (case t tmplData of Inl msg \<Rightarrow> Inl (ErrTemplate msg) | Inr buf \<Rightarrow> Inr buf))"

text \<open>\<^verbatim>\<open>func buildRedirectPage(pagePath string) ([]byte, error)\<close>\<close>

definition buildRedirectPage :: "template_set \<Rightarrow> string \<Rightarrow> error + byte list" where
  "buildRedirectPage templates pagePath =
     (let tmplData = [''MainURL'' \<mapsto> pagePath]
      in case ExecuteTemplate templates ''index-redirect.html'' tmplData of
           Inl err \<Rightarrow> Inl err
         | Inr buf \<Rightarrow> Inr buf)"

section \<open>The producer: ParseZIM\<close>

text \<open>
  The goroutine started by \<^verbatim>\<open>ParseZIM\<close> has two effects that others can see: it sends
  articles on the channel it returns, and it calls \<open>AddEntry\<close>. The trace lists them in
  the order in which the goroutine performs them; the consumer of the channel is
  assumed to receive every article that is sent.
\<close>

datatype event =
    Send Article
  | Insert string "string \<rightharpoonup> string"

record pstate =
  trace :: "event list"
  heap :: store
  bar :: nat

text \<open>
  \<open>Exit\<close> is the end of the process by \<^verbatim>\<open>log.Fatalf\<close>, with the state reached then;
  \<open>Done\<close> is a normal return.
\<close>

datatype 'a outcome = Done 'a | Exit 'a

fun emitted :: "event list \<Rightarrow> Article list" where
  "emitted [] = []"
| "emitted (Send a # tr) = a # emitted tr"
| "emitted (Insert p md # tr) = emitted tr"

fun inserted :: "event list \<Rightarrow> (string \<times> (string \<rightharpoonup> string)) list" where
  "inserted [] = []"
| "inserted (Send a # tr) = inserted tr"
| "inserted (Insert p md # tr) = (p, md) # inserted tr"

text \<open>
  Lines 123 to 141: the value assigned to \<^verbatim>\<open>data\<close>. \<open>Return\<close> is the \<^verbatim>\<open>return\<close> that
  leaves the callback, \<open>Fatalf\<close> the call of \<^verbatim>\<open>log.Fatalf\<close>.
\<close>

datatype fetched = Return | Fatalf | Payload "byte list"

definition entry_data :: "template_set \<Rightarrow> ZimReader \<Rightarrow> zim_Article \<Rightarrow> fetched" where
  "entry_data templates z a =
     (if EntryType a = RedirectEntry then
        (case RedirectIndex a of
           Inl err \<Rightarrow> Return
         | Inr ridx \<Rightarrow>
             (case ArticleAtURLIdx z ridx of
                Inl err \<Rightarrow> Return
              | Inr ra \<Rightarrow>
                  (case buildRedirectPage templates (path_Base (FullURL ra)) of
                     Inl err \<Rightarrow> Fatalf
                   | Inr d \<Rightarrow> Payload d)))
      else
        (case Data a of
           Inl err \<Rightarrow> Return
         | Inr d \<Rightarrow> Payload d))"

text \<open>
  The function literal passed to \<^verbatim>\<open>ListTitlesPtrIterator\<close> (lines 107 to 159). The
  progress bar is incremented only when the end of the body is reached.
\<close>

definition callback :: "template_set \<Rightarrow> SwarmWikiIndexer \<Rightarrow> 32 word \<Rightarrow> pstate \<Rightarrow> pstate outcome" where
  "callback templates idx i s =
     (case ArticleAtURLIdx (Z idx) i of
        Inl err \<Rightarrow> Done s
      | Inr a \<Rightarrow>
          if EntryType a = DeletedEntry then Done s
          else if Namespace a \<in> {CHR ''-'', CHR ''A'', CHR ''I'', CHR ''M'', CHR ''X''} then
            (case entry_data templates (Z idx) a of
               Return \<Rightarrow> Done s
             | Fatalf \<Rightarrow> Exit s
             | Payload d \<Rightarrow>
                 (let s1 = s\<lparr>trace := trace s @ [Send \<lparr>path = FullURL a, data = d\<rparr>]\<rparr>;
                      metadata = [''Title'' \<mapsto> Title a, ''MimeType'' \<mapsto> MimeType a];
                      s2 = s1\<lparr>trace := trace s1 @ [Insert (FullURL a) metadata],
                              heap := AddEntry idx (FullURL a) metadata (heap s1)\<rparr>
                  in Done (s2\<lparr>bar := bar s2 + 1\<rparr>)))
          else Done (s\<lparr>bar := bar s + 1\<rparr>))"

text \<open>The iteration of the decoder: the callback on every title pointer, in order.\<close>

fun ListTitlesPtrIterator :: "(32 word \<Rightarrow> pstate \<Rightarrow> pstate outcome) \<Rightarrow> 32 word list \<Rightarrow> pstate \<Rightarrow> pstate outcome" where
  "ListTitlesPtrIterator cb [] s = Done s"
| "ListTitlesPtrIterator cb (i # ptrs) s =
     (case cb i s of
        Exit s' \<Rightarrow> Exit s'
      | Done s' \<Rightarrow> ListTitlesPtrIterator cb ptrs s')"

text \<open>
  \<^verbatim>\<open>func (idx *SwarmWikiIndexer) ParseZIM() chan Article\<close>: the run of the goroutine from
  the store \<open>h\<close>. After \<open>Done\<close> the channel is closed.
\<close>

definition ParseZIM :: "template_set \<Rightarrow> SwarmWikiIndexer \<Rightarrow> store \<Rightarrow> pstate outcome" where
  "ParseZIM templates idx h =
     ListTitlesPtrIterator (callback templates idx) (titlePtrs (Z idx))
       \<lparr>trace = [], heap = h, bar = 0\<rparr>"

subsection \<open>Vocabulary of the statements about a run\<close>

definition recognized :: "char \<Rightarrow> bool" where
  "recognized c = (c \<in> {CHR ''-'', CHR ''A'', CHR ''I'', CHR ''M'', CHR ''X''})"

text \<open>The entries that the decoder returns for a list of title pointers.\<close>

fun decoded :: "ZimReader \<Rightarrow> 32 word list \<Rightarrow> zim_Article list" where
  "decoded z [] = []"
| "decoded z (i # ptrs) =
     (case ArticleAtURLIdx z i of
        Inl err \<Rightarrow> decoded z ptrs
      | Inr a \<Rightarrow> a # decoded z ptrs)"

definition kept :: "zim_Article \<Rightarrow> bool" where
  "kept a = (recognized (Namespace a) \<and> EntryType a \<noteq> DeletedEntry)"

text \<open>
  The assumption that the decoder serves an entry: it is returned for its index and,
  unless it is dropped, its redirect target resolves or its payload is fetched.
\<close>

definition accessors_succeed :: "ZimReader \<Rightarrow> 32 word \<Rightarrow> bool" where
  "accessors_succeed z i =
     (case ArticleAtURLIdx z i of
        Inl err \<Rightarrow> False
      | Inr a \<Rightarrow>
          (if \<not> kept a then True
           else if EntryType a = RedirectEntry then
             (case RedirectIndex a of
                Inl err \<Rightarrow> False
              | Inr ridx \<Rightarrow> (case ArticleAtURLIdx z ridx of Inl err \<Rightarrow> False | Inr ra \<Rightarrow> True))
           else (case Data a of Inl err \<Rightarrow> False | Inr d \<Rightarrow> True)))"

text \<open>The rendering of the redirect stub of an entry does not fail.\<close>

definition stub_renders :: "template_set \<Rightarrow> ZimReader \<Rightarrow> 32 word \<Rightarrow> bool" where
  "stub_renders templates z i =
     (case ArticleAtURLIdx z i of
        Inl err \<Rightarrow> True
      | Inr a \<Rightarrow> \<not> kept a \<or> entry_data templates z a \<noteq> Fatalf)"

text \<open>
  The template files are not among the sources. What a redirect stub is for is fixed
  by a reading \<open>parse\<close> of documents: the template \<open>index-redirect.html\<close> names the
  target it is executed with when every document it renders reads as the value of
  \<open>MainURL\<close>.
\<close>

definition names_MainURL :: "(byte list \<Rightarrow> string option) \<Rightarrow> template_set \<Rightarrow> bool" where
  "names_MainURL parse templates =
     (\<forall>p d. ExecuteTemplate templates ''index-redirect.html'' [''MainURL'' \<mapsto> p] = Inr d
        \<longrightarrow> parse d = Some p)"

text \<open>What the callback appends to the trace for an entry that is not dropped.\<close>

definition entry_events :: "template_set \<Rightarrow> ZimReader \<Rightarrow> zim_Article \<Rightarrow> event list" where
  "entry_events templates z a =
     (case entry_data templates z a of
        Payload d \<Rightarrow>
          [Send \<lparr>path = FullURL a, data = d\<rparr>,
           Insert (FullURL a) [''Title'' \<mapsto> Title a, ''MimeType'' \<mapsto> MimeType a]]
      | _ \<Rightarrow> [])"

text \<open>The order of the two effects: every insert directly follows the send of its path.\<close>

fun emit_then_insert :: "event list \<Rightarrow> bool" where
  "emit_then_insert [] = True"
| "emit_then_insert (Send a # Insert p md # tr) = (p = path a \<and> emit_then_insert tr)"
| "emit_then_insert tr = False"

text \<open>The order as the specification has it: an insert of the path precedes every send.\<close>

definition insert_before_emit :: "event list \<Rightarrow> bool" where
  "insert_before_emit tr =
     (\<forall>j < length tr. \<forall>a. tr ! j = Send a \<longrightarrow> (\<exists>i < j. \<exists>md. tr ! i = Insert (path a) md))"

text \<open>The final state of a run, however it ended.\<close>

fun state_of :: "'a outcome \<Rightarrow> 'a" where
  "state_of (Done s) = s"
| "state_of (Exit s) = s"

text \<open>
  The counts of the statement about a run: the entries in a recognized namespace, and
  those of them that are deleted.
\<close>

definition recognized_count :: "ZimReader \<Rightarrow> nat" where
  "recognized_count z =
     length (filter (\<lambda>a. recognized (Namespace a)) (decoded z (titlePtrs z)))"

definition deleted_count :: "ZimReader \<Rightarrow> nat" where
  "deleted_count z =
     length (filter (\<lambda>a. recognized (Namespace a) \<and> EntryType a = DeletedEntry)
               (decoded z (titlePtrs z)))"

section \<open>The page builders\<close>

text \<open>
  \<^verbatim>\<open>tarball.AppendTarData(tarFile, tarball.NewBufferFile(name, &buf))\<close> belongs to a
  package that is not part of the two files. It is a parameter that takes the path of
  the archive, the named buffer and the file system, and gives the new file system or
  the message of its error.
\<close>

type_synonym 'fs append_tar = "string \<Rightarrow> string \<times> byte list \<Rightarrow> 'fs \<Rightarrow> string + 'fs"

definition NewBufferFile :: "string \<Rightarrow> byte list \<Rightarrow> string \<times> byte list" where
  "NewBufferFile name buf = (name, buf)"

text \<open>
  \<^verbatim>\<open>func (idx *SwarmWikiIndexer) MakeRedirectIndexPage(tarFile string) error\<close>
  The write of \<^verbatim>\<open>data\<close> into the local buffer returns no error.
\<close>

definition MakeRedirectIndexPage :: "template_set \<Rightarrow> 'fs append_tar \<Rightarrow> SwarmWikiIndexer \<Rightarrow> string \<Rightarrow> 'fs \<Rightarrow> error + 'fs" where
  "MakeRedirectIndexPage templates AppendTarData idx tarFile fs =
     (case MainPage (Z idx) of
        Inl err \<Rightarrow> Inl (ErrZim err)
      | Inr None \<Rightarrow> Inl ErrNoIndex
      | Inr (Some mainPage) \<Rightarrow>
          (case buildRedirectPage templates (FullURL mainPage) of
             Inl err \<Rightarrow> Inl err
           | Inr d \<Rightarrow>
               (case AppendTarData tarFile (NewBufferFile ''index.html'' d) fs of
                  Inl msg \<Rightarrow> Inl (ErrTarball msg)
                | Inr fs' \<Rightarrow> Inr fs')))"

text \<open>\<^verbatim>\<open>func (idx *SwarmWikiIndexer) MakeErrorPage(tarFile string) error\<close>\<close>

definition MakeErrorPage :: "template_set \<Rightarrow> 'fs append_tar \<Rightarrow> SwarmWikiIndexer \<Rightarrow> string \<Rightarrow> 'fs \<Rightarrow> error + 'fs" where
  "MakeErrorPage templates AppendTarData idx tarFile fs =
     (let tmplData = [''File'' \<mapsto> filepath_Base (ZimPath idx)]
      in case ExecuteTemplate templates ''error.html'' tmplData of
           Inl err \<Rightarrow> Inl err
         | Inr buf \<Rightarrow>
             (case AppendTarData tarFile (NewBufferFile ''error.html'' buf) fs of
                Inl msg \<Rightarrow> Inl (ErrTarball msg)
              | Inr fs' \<Rightarrow> Inr fs'))"

section \<open>The archive writer: TarZim\<close>

text \<open>
  \<^verbatim>\<open>tar.Header{Name: file.path, Mode: 0600, Size: int64(len(file.data))}\<close>: the three
  fields that \<^verbatim>\<open>TarZim\<close> sets; every other field, \<^verbatim>\<open>Typeflag\<close> among them, is zero.
\<close>

record tar_Header =
  Name :: string
  Mode :: int
  Size :: int

text \<open>
  The archive file is kept as the list of its members and the presence of the
  trailer, not as blocks of bytes. The writer of package \<^verbatim>\<open>archive/tar\<close> promotes the
  zero \<^verbatim>\<open>Typeflag\<close> to a directory when the name ends in a slash and to a regular file
  otherwise.
\<close>

datatype tar_type = TypeReg | TypeDir

record tar_member =
  hdr :: tar_Header
  typeflag :: tar_type
  content :: "byte list"

record tar_file =
  members :: "tar_member list"
  trailer :: bool

text \<open>
  What the surroundings decide: whether \<^verbatim>\<open>os.Create\<close> succeeds on a path, whether
  the library can encode a header, and whether the device takes one more write to
  a file with the given contents.
\<close>

record tar_env =
  can_create :: "string \<Rightarrow> bool"
  encodable :: "tar_Header \<Rightarrow> bool"
  writable :: "tar_file \<Rightarrow> bool"

text \<open>\<^verbatim>\<open>tar.Writer\<close>: the file written so far and the bytes the current member still takes.\<close>

record Writer =
  out :: tar_file
  nb :: nat

definition NewWriter :: "Writer" where
  "NewWriter = \<lparr>out = \<lparr>members = [], trailer = False\<rparr>, nb = 0\<rparr>"

definition HasSuffix_slash :: "string \<Rightarrow> bool" where
  "HasSuffix_slash s = (s \<noteq> [] \<and> last s = CHR ''/'')"

text \<open>
  \<^verbatim>\<open>tw.WriteHeader(hdr)\<close>: fails when the previous member is short of bytes, when the
  header cannot be encoded or when the device fails. A directory takes no bytes,
  whatever its \<^verbatim>\<open>Size\<close> says.
\<close>

definition WriteHeader :: "tar_env \<Rightarrow> tar_Header \<Rightarrow> Writer \<Rightarrow> error option \<times> Writer" where
  "WriteHeader env h tw =
     (if nb tw \<noteq> 0 then (Some (ErrMissedWriting (nb tw)), tw)
      else if \<not> encodable env h \<or> \<not> writable env (out tw) then (Some ErrIO, tw)
      else
        (let ty = (if HasSuffix_slash (Name h) then TypeDir else TypeReg);
             m = \<lparr>hdr = h, typeflag = ty, content = []\<rparr>
         in (None, \<lparr>out = (out tw)\<lparr>members := members (out tw) @ [m]\<rparr>,
                    nb = (if ty = TypeDir then 0 else nat (Size h))\<rparr>)))"

text \<open>The bytes \<open>b\<close> appended to the member written last.\<close>

definition append_content :: "byte list \<Rightarrow> tar_file \<Rightarrow> tar_file" where
  "append_content b f =
     (if members f = [] then f
      else f\<lparr>members := butlast (members f) @
                [(last (members f))\<lparr>content := content (last (members f)) @ b\<rparr>]\<rparr>)"

text \<open>
  \<^verbatim>\<open>tw.Write(b)\<close>: at most \<open>nb\<close> bytes are written; when \<open>b\<close> is longer the call
  returns \<^verbatim>\<open>ErrWriteTooLong\<close>.
\<close>

definition Write :: "tar_env \<Rightarrow> byte list \<Rightarrow> Writer \<Rightarrow> error option \<times> Writer" where
  "Write env b tw =
     (let b' = take (nb tw) b
      in if b' \<noteq> [] \<and> \<not> writable env (out tw) then (Some ErrIO, tw)
         else
           (let tw' = \<lparr>out = append_content b' (out tw), nb = nb tw - length b'\<rparr>
            in if nb tw < length b then (Some ErrWriteTooLong, tw') else (None, tw')))"

text \<open>\<^verbatim>\<open>tw.Close()\<close>: the trailer, unless the last member is short of bytes.\<close>

definition Close :: "tar_env \<Rightarrow> Writer \<Rightarrow> error option \<times> Writer" where
  "Close env tw =
     (if nb tw \<noteq> 0 then (Some (ErrMissedWriting (nb tw)), tw)
      else if \<not> writable env (out tw) then (Some ErrIO, tw)
      else (None, tw\<lparr>out := (out tw)\<lparr>trailer := True\<rparr>\<rparr>))"

text \<open>The loop \<^verbatim>\<open>for file := range files\<close> over the articles that the channel delivers.\<close>

fun write_files :: "tar_env \<Rightarrow> Article list \<Rightarrow> Writer \<Rightarrow> error option \<times> Writer" where
  "write_files env [] tw = (None, tw)"
| "write_files env (file # files) tw =
     (let h = \<lparr>Name = path file, Mode = 384, Size = int (length (data file))\<rparr>
      in case WriteHeader env h tw of
           (Some err, tw1) \<Rightarrow> (Some err, tw1)
         | (None, tw1) \<Rightarrow>
             (case Write env (data file) tw1 of
                (Some err, tw2) \<Rightarrow> (Some err, tw2)
              | (None, tw2) \<Rightarrow> write_files env files tw2))"

text \<open>
  \<^verbatim>\<open>func (idx *SwarmWikiIndexer) TarZim(tarFile string, files <-chan Article) error\<close>
  The mode \<^verbatim>\<open>0600\<close> is octal, 384. The result is the error, if any, and the file
  system, in which the file holds what had been written when the function returned.
\<close>

definition TarZim :: "tar_env \<Rightarrow> string \<Rightarrow> Article list \<Rightarrow> (string \<rightharpoonup> tar_file) \<Rightarrow> error option \<times> (string \<rightharpoonup> tar_file)" where
  "TarZim env tarFile files fs =
     (if \<not> can_create env tarFile then (Some (ErrCreate tarFile), fs)
      else
        (case write_files env files NewWriter of
           (Some err, tw) \<Rightarrow> (Some err, fs(tarFile \<mapsto> out tw))
         | (None, tw) \<Rightarrow>
             (case Close env tw of
                (Some err, tw') \<Rightarrow> (Some err, fs(tarFile \<mapsto> out tw'))
              | (None, tw') \<Rightarrow> (None, fs(tarFile \<mapsto> out tw')))))"

text \<open>The member that the specification expects for an article, and the whole file.\<close>

definition member_of :: "Article \<Rightarrow> tar_member" where
  "member_of a =
     \<lparr>hdr = \<lparr>Name = path a, Mode = 384, Size = int (length (data a))\<rparr>,
      typeflag = (if HasSuffix_slash (path a) then TypeDir else TypeReg),
      content = data a\<rparr>"

definition archive_of :: "Article list \<Rightarrow> tar_file" where
  "archive_of files = \<lparr>members = map member_of files, trailer = True\<rparr>"

section \<open>Package api: BytesService.Upload\<close>

text \<open>
  \<^verbatim>\<open>http.Header\<close> is a map from canonical keys to lists of values. The canonical form
  of a key (\<^verbatim>\<open>textproto.CanonicalMIMEHeaderKey\<close>) is the parameter \<open>canon\<close>.
\<close>

type_synonym http_Header = "string \<rightharpoonup> string list"

definition Header_Set :: "(string \<Rightarrow> string) \<Rightarrow> http_Header \<Rightarrow> string \<Rightarrow> string \<Rightarrow> http_Header" where
  "Header_Set canon h key v = h(canon key \<mapsto> [v])"

definition Header_Add :: "(string \<Rightarrow> string) \<Rightarrow> http_Header \<Rightarrow> string \<Rightarrow> string \<Rightarrow> http_Header" where
  "Header_Add canon h key v =
     h(canon key \<mapsto> (case h (canon key) of None \<Rightarrow> [] | Some vs \<Rightarrow> vs) @ [v])"

text \<open>The one field of \<^verbatim>\<open>UploadOptions\<close> that \<^verbatim>\<open>Upload\<close> reads.\<close>

record UploadOptions =
  Pin :: bool

record request =
  httpMethod :: string
  url :: string
  header :: http_Header
  body :: "byte list"

text \<open>
  \<^verbatim>\<open>func (bs *BytesService) Upload(ctx, data, o) (BytesUploadResponse, error)\<close>
  (the options \<^verbatim>\<open>o\<close> are called \<open>opts\<close> here).
  The constant \<^verbatim>\<open>SwarmPinHeader\<close> is declared in another file of the package and is a
  parameter, as is the client \<^verbatim>\<open>bs.api.C.RequestWithHeader\<close>, which maps the request to
  the response and the error that \<^verbatim>\<open>Upload\<close> returns.
\<close>

definition Upload :: "(string \<Rightarrow> string) \<Rightarrow> string \<Rightarrow> (request \<Rightarrow> 'r) \<Rightarrow> byte list \<Rightarrow> 'o UploadOptions_scheme \<Rightarrow> 'r" where
  "Upload canon SwarmPinHeader RequestWithHeader d opts =
     (let header0 = Header_Set canon Map.empty ''Content-Type'' ''application/octet-stream'';
          header1 = (if Pin opts then Header_Add canon header0 SwarmPinHeader ''true'' else header0)
      in RequestWithHeader \<lparr>httpMethod = ''POST'', url = ''/bytes'', header = header1, body = d\<rparr>)"

section \<open>A small archive\<close>

text \<open>
  Four entries: an article, a redirect to it, a deleted entry, and a redirect in the
  namespace \<open>W\<close>, which is not among the five that the producer keeps.
\<close>

definition store0 :: store where
  "store0 = \<lparr>maps = (\<lambda>_. Map.empty), fresh = 0\<rparr>"

definition a_home :: zim_Article where
  "a_home = \<lparr>EntryType = 0, Title = ''Home'', Namespace = CHR ''A'', FullURL = ''A/home.html'',
     MimeType = ''text/html'', RedirectIndex = Inl ''Not a RedirectEntry'', Data = Inr ''<p>home</p>''\<rparr>"

definition a_start :: zim_Article where
  "a_start = \<lparr>EntryType = RedirectEntry, Title = ''Start'', Namespace = CHR ''A'', FullURL = ''A/start'',
     MimeType = [], RedirectIndex = Inr 0, Data = Inr []\<rparr>"

definition a_old :: zim_Article where
  "a_old = \<lparr>EntryType = DeletedEntry, Title = ''Old'', Namespace = CHR ''A'', FullURL = ''A/old'',
     MimeType = [], RedirectIndex = Inl ''Not a RedirectEntry'', Data = Inr []\<rparr>"

definition a_main :: zim_Article where
  "a_main = \<lparr>EntryType = RedirectEntry, Title = ''mainPage'', Namespace = CHR ''W'', FullURL = ''W/mainPage'',
     MimeType = [], RedirectIndex = Inr 0, Data = Inr []\<rparr>"

definition example_reader :: ZimReader where
  "example_reader =
     \<lparr>ArticleCount = 4, titlePtrs = [0, 1, 2, 3],
      ArticleAtURLIdx = (\<lambda>i. if i = 0 then Inr a_home else if i = 1 then Inr a_start
                          else if i = 2 then Inr a_old else if i = 3 then Inr a_main
                          else Inl ''index out of range''),
      MainPage = Inr (Some a_home)\<rparr>"

definition example_indexer :: SwarmWikiIndexer where
  "example_indexer = \<lparr>ZimPath = ''/data/wiki.zim'', Z = example_reader, entries = 0\<rparr>"

definition value_of :: "(string \<rightharpoonup> string) \<Rightarrow> string \<Rightarrow> string" where
  "value_of d k = (case d k of None \<Rightarrow> ''<no value>'' | Some v \<Rightarrow> v)"

definition example_templates :: template_set where
  "example_templates =
     [''index-redirect.html'' \<mapsto> (\<lambda>d. Inr (''<meta http-equiv=refresh content=0;url='' @ value_of d ''MainURL'' @ ''>'')),
      ''error.html'' \<mapsto> (\<lambda>d. Inr (''<h1>Not found in '' @ value_of d ''File'' @ ''</h1>''))]"

text \<open>Surroundings in which no file operation fails, and an append that records the buffer.\<close>

definition env_ok :: tar_env where
  "env_ok = \<lparr>can_create = (\<lambda>_. True), encodable = (\<lambda>_. True), writable = (\<lambda>_. True)\<rparr>"

definition record_append :: "(string \<times> string \<times> byte list) list append_tar" where
  "record_append tarFile f fs = Inr (fs @ [(tarFile, f)])"

text \<open>A decoder that opens every path as the small archive, and a second indexer.\<close>

definition open_example :: "string \<Rightarrow> string + ZimReader" where
  "open_example zimPath = Inr example_reader"

definition empty_reader :: ZimReader where
  "empty_reader = \<lparr>ArticleCount = 0, titlePtrs = [], ArticleAtURLIdx = (\<lambda>i. Inl ''index out of range''),
     MainPage = Inr None\<rparr>"

definition other_indexer :: SwarmWikiIndexer where
  "other_indexer = \<lparr>ZimPath = ''wiki.zim'', Z = empty_reader, entries = 7\<rparr>"

definition example_calls :: "(string \<times> (string \<rightharpoonup> string)) list" where
  "example_calls =
     [(''A/a'', [''Title'' \<mapsto> ''first'']), (''A/b'', [''Title'' \<mapsto> ''other'']),
      (''A/a'', [''Title'' \<mapsto> ''second''])]"

definition example_stream :: "Article list" where
  "example_stream =
     [\<lparr>path = ''A/home.html'', data = ''<p>home</p>''\<rparr>, \<lparr>path = ''A/empty/'', data = []\<rparr>,
      \<lparr>path = ''I/logo.png'', data = ''PNG''\<rparr>]"

text \<open>The reading of the documents of the example template: the text after its fixed prefix.\<close>

fun strip_prefix :: "string \<Rightarrow> string \<Rightarrow> string option" where
  "strip_prefix [] d = Some d"
| "strip_prefix (c # cs) [] = None"
| "strip_prefix (c # cs) (x # xs) = (if c = x then strip_prefix cs xs else None)"

definition example_parse :: "byte list \<Rightarrow> string option" where
  "example_parse d =
     (case strip_prefix ''<meta http-equiv=refresh content=0;url='' d of
        None \<Rightarrow> None
      | Some r \<Rightarrow> if r \<noteq> [] \<and> last r = CHR ''>'' then Some (butlast r) else None)"

text \<open>
  A second archive: an article whose URL ends in a slash and has a payload of one
  byte, followed by the article of the small archive.
\<close>

definition a_dir :: zim_Article where
  "a_dir = \<lparr>EntryType = 0, Title = ''Dir'', Namespace = CHR ''A'', FullURL = ''A/dir/'',
     MimeType = ''text/html'', RedirectIndex = Inl ''Not a RedirectEntry'', Data = Inr ''x''\<rparr>"

definition dir_reader :: ZimReader where
  "dir_reader =
     \<lparr>ArticleCount = 2, titlePtrs = [0, 1],
      ArticleAtURLIdx = (\<lambda>i. if i = 0 then Inr a_dir else if i = 1 then Inr a_home
                          else Inl ''index out of range''),
      MainPage = Inr (Some a_home)\<rparr>"

definition dir_indexer :: SwarmWikiIndexer where
  "dir_indexer = \<lparr>ZimPath = ''/data/dir.zim'', Z = dir_reader, entries = 0\<rparr>"

section \<open>Lemmas\<close>

subsection \<open>The metadata index\<close>

lemma Article_Data_diverges: "Article_Data a = None"
proof (cases "Article_Data a")
  case None
  then show ?thesis .
next
  case (Some y)
  have "Article_Data a = Some y \<Longrightarrow> False"
    by (rule Article_Data.raw_induct [where P = "\<lambda>_ _. False"])
  with Some show ?thesis by blast
qed

lemma AddEntry_calls_maps:
  "maps (AddEntry_calls idx cs h) (entries idx) =
     (\<lambda>p. case map_of (rev cs) p of
             None \<Rightarrow> maps h (entries idx) p
           | Some md \<Rightarrow> Some \<lparr>Path = p, Metadata = md\<rparr>)"
proof (induction cs arbitrary: h)
  case Nil
  show ?case by simp
next
  case (Cons c cs)
  obtain q md where c: "c = (q, md)" by (cases c)
  show ?case
    unfolding c
    by (auto simp: Cons.IH AddEntry_def fun_eq_iff map_add_def split: option.splits)
qed

lemma New_entries_empty:
  "New NewReader zimPath h0 = (Inr idx, h1) \<Longrightarrow> maps h1 (entries idx) = Map.empty"
  by (auto simp: New_def make_map_def split: sum.splits)

lemma AddEntry_calls_append:
  "AddEntry_calls idx (cs @ ds) h = AddEntry_calls idx ds (AddEntry_calls idx cs h)"
  by (induction cs arbitrary: h) auto

lemma New_example:
  "New open_example ''/data/wiki.zim'' store0 =
     (Inr example_indexer, \<lparr>maps = (\<lambda>_. Map.empty), fresh = Suc 0\<rparr>)"
  by (simp add: New_def open_example_def make_map_def store0_def example_indexer_def fun_eq_iff)

subsection \<open>One call of the callback\<close>

lemma callback_unfold:
  "callback ts idx i s =
     (case ArticleAtURLIdx (Z idx) i of
        Inl err \<Rightarrow> Done s
      | Inr a \<Rightarrow>
          if kept a then
            (case entry_data ts (Z idx) a of
               Return \<Rightarrow> Done s
             | Fatalf \<Rightarrow> Exit s
             | Payload d \<Rightarrow>
                 Done (s\<lparr>trace := trace s @ entry_events ts (Z idx) a,
                         heap := AddEntry idx (FullURL a)
                                   [''Title'' \<mapsto> Title a, ''MimeType'' \<mapsto> MimeType a] (heap s),
                         bar := bar s + 1\<rparr>))
          else if EntryType a = DeletedEntry then Done s
          else Done (s\<lparr>bar := bar s + 1\<rparr>))"
  by (simp add: callback_def kept_def recognized_def entry_events_def Let_def
           split: sum.splits fetched.splits)

lemma emitted_append: "emitted (xs @ ys) = emitted xs @ emitted ys"
  by (induction xs rule: emitted.induct) simp_all

lemma inserted_append: "inserted (xs @ ys) = inserted xs @ inserted ys"
  by (induction xs rule: inserted.induct) simp_all

lemma emit_then_insert_append:
  "emit_then_insert xs \<Longrightarrow> emit_then_insert (xs @ ys) = emit_then_insert ys"
  by (induction xs rule: emit_then_insert.induct) simp_all

lemma emit_then_insert_entry_events: "emit_then_insert (entry_events ts z a)"
  by (simp add: entry_events_def split: fetched.splits)

lemma emit_then_insert_concat:
  "emit_then_insert (concat (map (entry_events ts z) as))"
  by (induction as) (simp_all add: emit_then_insert_append emit_then_insert_entry_events)

lemma inserted_entry_events:
  "entry_data ts z a = Payload d \<Longrightarrow>
   inserted (entry_events ts z a) =
     [(FullURL a, [''Title'' \<mapsto> Title a, ''MimeType'' \<mapsto> MimeType a])]"
  by (simp add: entry_events_def)

lemma emitted_entry_events:
  "entry_data ts z a = Payload d \<Longrightarrow>
   emitted (entry_events ts z a) = [\<lparr>path = FullURL a, data = d\<rparr>]"
  by (simp add: entry_events_def)

lemma decoded_append: "decoded z (xs @ ys) = decoded z xs @ decoded z ys"
  by (induction xs) (simp_all split: sum.splits)

text \<open>
  What one call does to the trace and to the store: nothing, or the two events of the
  entry together with its insert.
\<close>

lemma callback_step:
  "trace (state_of (callback ts idx i s)) =
     trace s @ concat (map (entry_events ts (Z idx)) (filter kept (decoded (Z idx) [i]))) \<and>
   heap (state_of (callback ts idx i s)) =
     AddEntry_calls idx
       (inserted (concat (map (entry_events ts (Z idx)) (filter kept (decoded (Z idx) [i])))))
       (heap s)"
proof (cases "ArticleAtURLIdx (Z idx) i")
  case (Inl err)
  then show ?thesis by (simp add: callback_unfold)
next
  case (Inr a)
  show ?thesis
  proof (cases "kept a")
    case False
    then show ?thesis using Inr by (simp add: callback_unfold)
  next
    case True
    show ?thesis
    proof (cases "entry_data ts (Z idx) a")
      case Return
      then show ?thesis using Inr True by (simp add: callback_unfold entry_events_def)
    next
      case Fatalf
      then show ?thesis using Inr True by (simp add: callback_unfold entry_events_def)
    next
      case (Payload d)
      then show ?thesis using Inr True
        by (simp add: callback_unfold inserted_entry_events)
    qed
  qed
qed

subsection \<open>A whole run\<close>

text \<open>
  Every run, complete or ended by \<^verbatim>\<open>log.Fatalf\<close>, has handled a prefix of the title
  pointers.
\<close>

lemma run_steps:
  "\<exists>n \<le> length ptrs.
     trace (state_of (ListTitlesPtrIterator (callback ts idx) ptrs s)) =
       trace s @ concat (map (entry_events ts (Z idx)) (filter kept (decoded (Z idx) (take n ptrs)))) \<and>
     heap (state_of (ListTitlesPtrIterator (callback ts idx) ptrs s)) =
       AddEntry_calls idx
         (inserted (concat (map (entry_events ts (Z idx)) (filter kept (decoded (Z idx) (take n ptrs))))))
         (heap s)"
proof (induction ptrs arbitrary: s)
  case Nil
  show ?case by simp
next
  case (Cons i ptrs)
  let ?ev = "\<lambda>xs. concat (map (entry_events ts (Z idx)) (filter kept (decoded (Z idx) xs)))"
  have ev_Cons: "?ev (i # xs) = ?ev [i] @ ?ev xs" for xs
    using decoded_append [of "Z idx" "[i]" xs] by simp
  have c: "trace (state_of (callback ts idx i s)) = trace s @ ?ev [i]"
      "heap (state_of (callback ts idx i s)) = AddEntry_calls idx (inserted (?ev [i])) (heap s)"
    using callback_step [of ts idx i s] by blast+
  show ?case
  proof (cases "callback ts idx i s")
    case (Exit s')
    then have "trace (state_of (ListTitlesPtrIterator (callback ts idx) (i # ptrs) s)) =
                 trace s @ ?ev (take 1 (i # ptrs))"
        "heap (state_of (ListTitlesPtrIterator (callback ts idx) (i # ptrs) s)) =
                 AddEntry_calls idx (inserted (?ev (take 1 (i # ptrs)))) (heap s)"
      using c by simp_all
    then show ?thesis by (intro exI [of _ 1]) simp
  next
    case (Done s')
    obtain n where n: "n \<le> length ptrs"
        "trace (state_of (ListTitlesPtrIterator (callback ts idx) ptrs s')) = trace s' @ ?ev (take n ptrs)"
        "heap (state_of (ListTitlesPtrIterator (callback ts idx) ptrs s')) =
           AddEntry_calls idx (inserted (?ev (take n ptrs))) (heap s')"
      using Cons.IH [of s'] by blast
    have "trace (state_of (ListTitlesPtrIterator (callback ts idx) (i # ptrs) s)) =
            trace s @ ?ev (take (Suc n) (i # ptrs))"
      using Done c(1) n(2) ev_Cons [of "take n ptrs"] by simp
    moreover have "heap (state_of (ListTitlesPtrIterator (callback ts idx) (i # ptrs) s)) =
            AddEntry_calls idx (inserted (?ev (take (Suc n) (i # ptrs)))) (heap s)"
      using Done c(2) n(3) ev_Cons [of "take n ptrs"]
      by (simp add: inserted_append AddEntry_calls_append)
    ultimately show ?thesis using n(1) by (intro exI [of _ "Suc n"]) simp
  qed
qed

text \<open>A run in which no redirect stub fails to render handles every title pointer.\<close>

lemma run_Done:
  assumes "\<forall>i \<in> set ptrs. stub_renders ts (Z idx) i"
  shows "\<exists>s'. ListTitlesPtrIterator (callback ts idx) ptrs s = Done s' \<and>
           trace s' = trace s @
             concat (map (entry_events ts (Z idx)) (filter kept (decoded (Z idx) ptrs))) \<and>
           heap s' = AddEntry_calls idx
             (inserted (concat (map (entry_events ts (Z idx)) (filter kept (decoded (Z idx) ptrs)))))
             (heap s)"
  using assms
proof (induction ptrs arbitrary: s)
  case Nil
  show ?case by simp
next
  case (Cons i ptrs)
  let ?ev = "\<lambda>xs. concat (map (entry_events ts (Z idx)) (filter kept (decoded (Z idx) xs)))"
  have ev_Cons: "?ev (i # ptrs) = ?ev [i] @ ?ev ptrs"
    using decoded_append [of "Z idx" "[i]" ptrs] by simp
  have r: "stub_renders ts (Z idx) i" using Cons.prems by simp
  have "\<exists>s1. callback ts idx i s = Done s1"
  proof (cases "ArticleAtURLIdx (Z idx) i")
    case (Inl err)
    then show ?thesis by (simp add: callback_unfold)
  next
    case (Inr a)
    then show ?thesis using r
      by (cases "entry_data ts (Z idx) a") (auto simp: callback_unfold stub_renders_def)
  qed
  then obtain s1 where s1: "callback ts idx i s = Done s1" by blast
  have c: "trace s1 = trace s @ ?ev [i]"
      "heap s1 = AddEntry_calls idx (inserted (?ev [i])) (heap s)"
    using callback_step [of ts idx i s] s1 by simp_all
  obtain s' where s': "ListTitlesPtrIterator (callback ts idx) ptrs s1 = Done s'"
      "trace s' = trace s1 @ ?ev ptrs"
      "heap s' = AddEntry_calls idx (inserted (?ev ptrs)) (heap s1)"
    using Cons.IH [of s1] Cons.prems by auto
  have "ListTitlesPtrIterator (callback ts idx) (i # ptrs) s = Done s'"
    using s1 s'(1) by simp
  moreover have "trace s' = trace s @ ?ev (i # ptrs)"
    using c(1) s'(2) ev_Cons by simp
  moreover have "heap s' = AddEntry_calls idx (inserted (?ev (i # ptrs))) (heap s)"
    using c(2) s'(3) ev_Cons by (simp add: inserted_append AddEntry_calls_append)
  ultimately show ?case by blast
qed

lemma entry_data_Payload:
  assumes "ArticleAtURLIdx z i = Inr a" "kept a" "accessors_succeed z i" "stub_renders ts z i"
  shows "\<exists>d. entry_data ts z a = Payload d"
  using assms
  by (auto simp: accessors_succeed_def stub_renders_def entry_data_def split: sum.splits if_splits)

lemma events_paths:
  assumes "\<forall>i \<in> set ptrs. accessors_succeed z i \<and> stub_renders ts z i"
  shows "map path (emitted (concat (map (entry_events ts z) (filter kept (decoded z ptrs))))) =
           map FullURL (filter kept (decoded z ptrs)) \<and>
         map fst (inserted (concat (map (entry_events ts z) (filter kept (decoded z ptrs))))) =
           map FullURL (filter kept (decoded z ptrs)) \<and>
         length (decoded z ptrs) = length ptrs"
  using assms
proof (induction ptrs)
  case Nil
  show ?case by simp
next
  case (Cons i ptrs)
  show ?case
  proof (cases "ArticleAtURLIdx z i")
    case (Inl err)
    then show ?thesis using Cons.prems by (simp add: accessors_succeed_def)
  next
    case (Inr a)
    show ?thesis
    proof (cases "kept a")
      case True
      then obtain d where "entry_data ts z a = Payload d"
        using entry_data_Payload [OF Inr True] Cons.prems by auto
      then show ?thesis using Inr True Cons
        by (simp add: emitted_append inserted_append emitted_entry_events inserted_entry_events)
    next
      case False
      then show ?thesis using Inr Cons by simp
    qed
  qed
qed

lemma kept_count:
  "length (filter kept as) =
     length (filter (\<lambda>a. recognized (Namespace a)) as) -
     length (filter (\<lambda>a. recognized (Namespace a) \<and> EntryType a = DeletedEntry) as)
   \<and> length (filter (\<lambda>a. recognized (Namespace a) \<and> EntryType a = DeletedEntry) as)
       \<le> length (filter (\<lambda>a. recognized (Namespace a)) as)"
  by (induction as) (auto simp: kept_def)

lemma decoded_member:
  "i \<in> set ptrs \<Longrightarrow> ArticleAtURLIdx z i = Inr a \<Longrightarrow> a \<in> set (decoded z ptrs)"
  by (induction ptrs) (auto split: sum.splits)

lemma emitted_concat_member:
  "a \<in> set as \<Longrightarrow> x \<in> set (emitted (f a)) \<Longrightarrow> x \<in> set (emitted (concat (map f as)))"
  by (induction as) (auto simp: emitted_append)

lemma run_example:
  "ParseZIM example_templates example_indexer store0 =
     Done \<lparr>trace =
             [Send \<lparr>path = ''A/home.html'', data = ''<p>home</p>''\<rparr>,
              Insert ''A/home.html'' [''Title'' \<mapsto> ''Home'', ''MimeType'' \<mapsto> ''text/html''],
              Send \<lparr>path = ''A/start'',
                    data = ''<meta http-equiv=refresh content=0;url=home.html>''\<rparr>,
              Insert ''A/start'' [''Title'' \<mapsto> ''Start'', ''MimeType'' \<mapsto> []]],
           heap = AddEntry example_indexer ''A/start'' [''Title'' \<mapsto> ''Start'', ''MimeType'' \<mapsto> []]
                    (AddEntry example_indexer ''A/home.html''
                       [''Title'' \<mapsto> ''Home'', ''MimeType'' \<mapsto> ''text/html''] store0),
           bar = 3\<rparr>"
  by (simp add: ParseZIM_def callback_def example_indexer_def example_reader_def a_home_def
        a_start_def a_old_def a_main_def entry_data_def RedirectEntry_def DeletedEntry_def
        buildRedirectPage_def ExecuteTemplate_def example_templates_def value_of_def
        path_Base_def Let_def)

lemma example_succeeds:
  "\<forall>i \<in> set (titlePtrs (Z example_indexer)).
     accessors_succeed (Z example_indexer) i \<and> stub_renders example_templates (Z example_indexer) i"
  by (simp add: example_indexer_def example_reader_def a_home_def a_start_def a_old_def
        a_main_def accessors_succeed_def stub_renders_def kept_def recognized_def entry_data_def
        RedirectEntry_def DeletedEntry_def buildRedirectPage_def ExecuteTemplate_def
        example_templates_def)

lemma example_names_MainURL: "names_MainURL example_parse example_templates"
  by (simp add: names_MainURL_def ExecuteTemplate_def example_templates_def value_of_def
        example_parse_def)

lemma run_dir:
  "emitted (trace (state_of (ParseZIM example_templates dir_indexer store0))) =
     [\<lparr>path = ''A/dir/'', data = ''x''\<rparr>, \<lparr>path = ''A/home.html'', data = ''<p>home</p>''\<rparr>]"
  by (simp add: ParseZIM_def callback_def dir_indexer_def dir_reader_def a_home_def a_dir_def
        entry_data_def RedirectEntry_def DeletedEntry_def Let_def)

subsection \<open>The archive writer\<close>

lemma WriteHeader_ok:
  assumes "nb tw = 0" "encodable env h" "writable env (out tw)"
  shows "WriteHeader env h tw =
     (None, \<lparr>out = (out tw)\<lparr>members := members (out tw) @
                [\<lparr>hdr = h, typeflag = (if HasSuffix_slash (Name h) then TypeDir else TypeReg),
                  content = []\<rparr>]\<rparr>,
             nb = (if HasSuffix_slash (Name h) then 0 else nat (Size h))\<rparr>)"
  using assms by (simp add: WriteHeader_def Let_def)

lemma append_content_snoc:
  "append_content b (f\<lparr>members := ms @ [m]\<rparr>) =
     f\<lparr>members := ms @ [m\<lparr>content := content m @ b\<rparr>]\<rparr>"
  by (simp add: append_content_def)

lemma write_one:
  assumes "nb tw = 0" "encodable env \<lparr>Name = path a, Mode = 384, Size = int (length (data a))\<rparr>"
    and "\<forall>f. writable env f" "HasSuffix_slash (path a) \<longrightarrow> data a = []"
  shows "write_files env (a # files) tw =
           write_files env files
             \<lparr>out = (out tw)\<lparr>members := members (out tw) @ [member_of a]\<rparr>, nb = 0\<rparr>"
proof -
  let ?h = "\<lparr>Name = path a, Mode = 384, Size = int (length (data a))\<rparr>"
  let ?m = "\<lparr>hdr = ?h, typeflag = (if HasSuffix_slash (path a) then TypeDir else TypeReg),
             content = []\<rparr>"
  let ?tw1 = "\<lparr>out = (out tw)\<lparr>members := members (out tw) @ [?m]\<rparr>,
               nb = (if HasSuffix_slash (path a) then 0 else length (data a))\<rparr>"
  have h: "WriteHeader env ?h tw = (None, ?tw1)"
    using WriteHeader_ok [OF assms(1,2)] assms(3) by simp
  have t: "take (nb ?tw1) (data a) = data a"
    using assms(4) by simp
  have w: "Write env (data a) ?tw1 =
             (None, \<lparr>out = (out tw)\<lparr>members := members (out tw) @ [member_of a]\<rparr>, nb = 0\<rparr>)"
    unfolding Write_def Let_def t
    using assms(3,4) by (simp add: append_content_snoc member_of_def)
  show ?thesis
    by (simp add: h w Let_def)
qed

lemma write_files_ok:
  assumes "\<forall>h. encodable env h" "\<forall>f. writable env f"
    and "\<forall>a \<in> set files. HasSuffix_slash (path a) \<longrightarrow> data a = []"
    and "nb tw = 0"
  shows "write_files env files tw =
           (None, \<lparr>out = (out tw)\<lparr>members := members (out tw) @ map member_of files\<rparr>, nb = 0\<rparr>)"
  using assms(3,4)
proof (induction files arbitrary: tw)
  case Nil
  then show ?case by simp
next
  case (Cons a files)
  have "write_files env (a # files) tw =
          write_files env files
            \<lparr>out = (out tw)\<lparr>members := members (out tw) @ [member_of a]\<rparr>, nb = 0\<rparr>"
    using write_one [of tw env a files] assms(1,2) Cons.prems by simp
  also have "\<dots> =
      (None, \<lparr>out = (out tw)\<lparr>members := members (out tw) @ map member_of (a # files)\<rparr>, nb = 0\<rparr>)"
    using Cons.IH [of "\<lparr>out = (out tw)\<lparr>members := members (out tw) @ [member_of a]\<rparr>, nb = 0\<rparr>"]
      Cons.prems
    by simp
  finally show ?case .
qed

text \<open>
  When no file operation can fail and every article whose path ends in a slash has
  an empty payload, the file holds one member for every article, in the order of the
  stream, and the trailer.
\<close>

lemma TarZim_ok:
  assumes "can_create env tarFile" "\<forall>h. encodable env h" "\<forall>f. writable env f"
    and "\<forall>a \<in> set files. HasSuffix_slash (path a) \<longrightarrow> data a = []"
  shows "TarZim env tarFile files fs = (None, fs(tarFile \<mapsto> archive_of files)) \<and>
         map (\<lambda>m. (Name (hdr m), Size (hdr m), Mode (hdr m), content m)) (members (archive_of files)) =
           map (\<lambda>a. (path a, int (length (data a)), 384, data a)) files \<and>
         trailer (archive_of files)"
proof -
  have "write_files env files NewWriter =
          (None, \<lparr>out = \<lparr>members = map member_of files, trailer = False\<rparr>, nb = 0\<rparr>)"
    using write_files_ok [OF assms(2,3,4), of NewWriter] by (simp add: NewWriter_def)
  then have "TarZim env tarFile files fs = (None, fs(tarFile \<mapsto> archive_of files))"
    using assms(1,3) by (simp add: TarZim_def Close_def archive_of_def)
  then show ?thesis
    by (simp add: archive_of_def member_of_def comp_def)
qed

lemma TarZim_example:
  "TarZim env_ok ''out.tar'' example_stream Map.empty =
     (None,
      [''out.tar'' \<mapsto>
         \<lparr>members =
            [\<lparr>hdr = \<lparr>Name = ''A/home.html'', Mode = 384, Size = 11\<rparr>, typeflag = TypeReg,
               content = ''<p>home</p>''\<rparr>,
             \<lparr>hdr = \<lparr>Name = ''A/empty/'', Mode = 384, Size = 0\<rparr>, typeflag = TypeDir, content = []\<rparr>,
             \<lparr>hdr = \<lparr>Name = ''I/logo.png'', Mode = 384, Size = 3\<rparr>, typeflag = TypeReg,
               content = ''PNG''\<rparr>],
          trailer = True\<rparr>])"
proof -
  have e: "can_create env_ok ''out.tar''" "\<forall>h. encodable env_ok h" "\<forall>f. writable env_ok f"
    by (simp_all add: env_ok_def)
  have s: "\<forall>a \<in> set example_stream. HasSuffix_slash (path a) \<longrightarrow> data a = []"
    by (simp add: example_stream_def HasSuffix_slash_def)
  show ?thesis
    using TarZim_ok [OF e s, of Map.empty]
    by (simp add: archive_of_def member_of_def example_stream_def HasSuffix_slash_def)
qed

subsection \<open>The page builders\<close>

lemma buildRedirectPage_error:
  "buildRedirectPage ts p = Inl e \<Longrightarrow> e \<noteq> ErrNoIndex"
  by (auto simp: buildRedirectPage_def ExecuteTemplate_def split: option.splits sum.splits)

section \<open>The claims\<close>

text \<open>
  Claim C1. Let every title pointer of the archive be served by the decoder: the entry
  is returned and, unless it is dropped, its redirect target resolves or its payload
  is fetched; and let no redirect stub fail to render. Then the run of \<open>ParseZIM\<close>
  returns normally, all \<open>N\<close> entries are decoded, and with \<open>R\<close> of them in one of the
  five recognized namespaces and \<open>D\<close> of those deleted it sends exactly \<open>R - D\<close>
  articles. The articles sent and the entries inserted into the index are those of
  the recognized, not deleted entries, in order: an entry of any other namespace
  leaves no article and no metadata.
\<close>

theorem ParseZIM_emits_recognized_not_deleted:
  assumes "\<forall>i \<in> set (titlePtrs (Z idx)).
             accessors_succeed (Z idx) i \<and> stub_renders templates (Z idx) i"
  shows "\<exists>s. ParseZIM templates idx h = Done s \<and>
           length (decoded (Z idx) (titlePtrs (Z idx))) = length (titlePtrs (Z idx)) \<and>
           deleted_count (Z idx) \<le> recognized_count (Z idx) \<and>
           length (emitted (trace s)) = recognized_count (Z idx) - deleted_count (Z idx) \<and>
           map path (emitted (trace s)) = map FullURL (filter kept (decoded (Z idx) (titlePtrs (Z idx)))) \<and>
           map fst (inserted (trace s)) = map FullURL (filter kept (decoded (Z idx) (titlePtrs (Z idx)))) \<and>
           heap s = AddEntry_calls idx (inserted (trace s)) h"
proof -
  let ?as = "decoded (Z idx) (titlePtrs (Z idx))"
  let ?ev = "concat (map (entry_events templates (Z idx)) (filter kept ?as))"
  have r: "\<forall>i \<in> set (titlePtrs (Z idx)). stub_renders templates (Z idx) i"
    using assms by blast
  obtain s where s: "ParseZIM templates idx h = Done s" "trace s = ?ev"
      "heap s = AddEntry_calls idx (inserted ?ev) h"
    using run_Done [OF r, of "\<lparr>trace = [], heap = h, bar = 0\<rparr>"]
    by (auto simp: ParseZIM_def)
  have p: "map path (emitted ?ev) = map FullURL (filter kept ?as)"
      "map fst (inserted ?ev) = map FullURL (filter kept ?as)"
      "length ?as = length (titlePtrs (Z idx))"
    using events_paths [OF assms] by blast+
  have "length (emitted ?ev) = length (filter kept ?as)"
    using p(1) by (metis length_map)
  then have n: "length (emitted (trace s)) = recognized_count (Z idx) - deleted_count (Z idx)"
    using kept_count [of ?as] s(2) by (simp add: recognized_count_def deleted_count_def)
  have d: "deleted_count (Z idx) \<le> recognized_count (Z idx)"
    using kept_count [of ?as] by (simp add: recognized_count_def deleted_count_def)
  show ?thesis
    using s p n d by simp
qed

text \<open>
  The small archive satisfies the assumptions of C1: four entries, three in recognized
  namespaces, one of them deleted, two articles sent.
\<close>

theorem ParseZIM_emits_recognized_not_deleted_witness:
  "\<exists>s. ParseZIM example_templates example_indexer store0 = Done s \<and>
     length (titlePtrs example_reader) = 4 \<and>
     recognized_count example_reader = 3 \<and> deleted_count example_reader = 1 \<and>
     length (emitted (trace s)) = 2 \<and>
     map fst (inserted (trace s)) = [''A/home.html'', ''A/start'']"
proof -
  have z: "Z example_indexer = example_reader"
    by (simp add: example_indexer_def)
  have c: "recognized_count example_reader = 3" "deleted_count example_reader = 1"
      "length (titlePtrs example_reader) = 4"
      "map FullURL (filter kept (decoded example_reader (titlePtrs example_reader))) =
         [''A/home.html'', ''A/start'']"
    by (simp_all add: recognized_count_def deleted_count_def example_reader_def a_home_def
          a_start_def a_old_def a_main_def recognized_def kept_def RedirectEntry_def DeletedEntry_def)
  show ?thesis
    using ParseZIM_emits_recognized_not_deleted [OF example_succeeds, of store0] c
    unfolding z by auto
qed

text \<open>
  Claim C2, as stated, says that the table reached through the result of an earlier
  call of \<open>Entries\<close> is not changed by a later \<open>AddEntry\<close>. On the indexer that \<open>New\<close>
  returns for the small archive it is changed.
\<close>

theorem Entries_aliases_index_counterexample:
  "fst (New open_example ''/data/wiki.zim'' store0) = Inr example_indexer \<and>
   maps (AddEntry example_indexer ''A/new'' Map.empty (snd (New open_example ''/data/wiki.zim'' store0)))
        (Entries example_indexer)
     \<noteq> maps (snd (New open_example ''/data/wiki.zim'' store0)) (Entries example_indexer)"
proof -
  let ?h = "snd (New open_example ''/data/wiki.zim'' store0)"
  have "maps (AddEntry example_indexer ''A/new'' Map.empty ?h) (Entries example_indexer) ''A/new'' \<noteq>
        maps ?h (Entries example_indexer) ''A/new''"
    by (simp add: New_example AddEntry_def Entries_def)
  then show ?thesis
    by (auto simp: New_example)
qed

text \<open>
  Claim C2, amended. \<open>Entries\<close> returns the reference to the live table of the index:
  after a later \<open>AddEntry\<close> of a path and its metadata, the table reached through the
  result of the earlier call maps that path to the new entry and is unchanged at
  every other path.
\<close>

theorem Entries_sees_later_AddEntry:
  "maps (AddEntry idx p md h) (Entries idx) =
     (maps h (Entries idx))(p \<mapsto> \<lparr>Path = p, Metadata = md\<rparr>)"
  by (simp add: AddEntry_def Entries_def)

text \<open>An instance of the amended C2 on the empty store.\<close>

theorem Entries_sees_later_AddEntry_witness:
  "maps (AddEntry example_indexer ''A/new'' Map.empty store0) (Entries example_indexer) ''A/new'' =
     Some \<lparr>Path = ''A/new'', Metadata = Map.empty\<rparr> \<and>
   maps store0 (Entries example_indexer) ''A/new'' = None"
  using Entries_sees_later_AddEntry [of example_indexer "''A/new''" Map.empty store0]
  by (simp add: store0_def)

text \<open>
  Claim C3, as stated, says that the insert into the index precedes the send of the
  article. In the run over the small archive the first event is a send.
\<close>

theorem insert_before_emit_counterexample:
  "\<not> insert_before_emit (trace (state_of (ParseZIM example_templates example_indexer store0)))"
proof
  assume "insert_before_emit (trace (state_of (ParseZIM example_templates example_indexer store0)))"
  then have "\<exists>i < (0::nat). \<exists>md.
      trace (state_of (ParseZIM example_templates example_indexer store0)) ! i = Insert ''A/home.html'' md"
    unfolding insert_before_emit_def run_example
    by (auto dest!: spec [of _ 0])
  then show False by simp
qed

text \<open>
  Claim C3, amended. In every run of \<open>ParseZIM\<close>, complete or not, the trace consists
  of pairs: the send of an article, directly followed by the insert of the same path
  with the title and the MIME type of the entry. The pairs are those of the
  recognized, not deleted entries among the title pointers handled so far, and the
  store is the result of these inserts. So the send of an entry happens before its
  insert.
\<close>

theorem ParseZIM_emit_then_insert:
  "emit_then_insert (trace (state_of (ParseZIM templates idx h))) \<and>
   (\<exists>n \<le> length (titlePtrs (Z idx)).
      trace (state_of (ParseZIM templates idx h)) =
        concat (map (entry_events templates (Z idx))
                  (filter kept (decoded (Z idx) (take n (titlePtrs (Z idx))))))) \<and>
   heap (state_of (ParseZIM templates idx h)) =
     AddEntry_calls idx (inserted (trace (state_of (ParseZIM templates idx h)))) h"
proof -
  obtain n where n: "n \<le> length (titlePtrs (Z idx))"
      "trace (state_of (ParseZIM templates idx h)) =
         concat (map (entry_events templates (Z idx))
                   (filter kept (decoded (Z idx) (take n (titlePtrs (Z idx))))))"
      "heap (state_of (ParseZIM templates idx h)) =
         AddEntry_calls idx (inserted (concat (map (entry_events templates (Z idx))
                   (filter kept (decoded (Z idx) (take n (titlePtrs (Z idx)))))))) h"
    using run_steps [of "titlePtrs (Z idx)" templates idx "\<lparr>trace = [], heap = h, bar = 0\<rparr>"]
    by (auto simp: ParseZIM_def)
  have "emit_then_insert (trace (state_of (ParseZIM templates idx h)))"
    unfolding n(2) by (rule emit_then_insert_concat)
  then show ?thesis using n by auto
qed

text \<open>The trace of the run over the small archive, as an instance of the amended C3.\<close>

theorem ParseZIM_emit_then_insert_witness:
  "emit_then_insert
     [Send \<lparr>path = ''A/home.html'', data = ''<p>home</p>''\<rparr>,
      Insert ''A/home.html'' [''Title'' \<mapsto> ''Home'', ''MimeType'' \<mapsto> ''text/html''],
      Send \<lparr>path = ''A/start'', data = ''<meta http-equiv=refresh content=0;url=home.html>''\<rparr>,
      Insert ''A/start'' [''Title'' \<mapsto> ''Start'', ''MimeType'' \<mapsto> []]]"
  using ParseZIM_emit_then_insert [of example_templates example_indexer store0]
  unfolding run_example by simp

text \<open>
  Claim C4 says that \<open>Data\<close> returns the stored payload. The method calls itself, so
  the call on an article with a payload of eleven bytes does not return.
\<close>

theorem Article_Data_never_returns:
  "Article_Data \<lparr>path = ''A/home.html'', data = ''<p>home</p>''\<rparr> = None"
  by (rule Article_Data_diverges)

text \<open>
  Claim C5. Let no redirect stub of the archive fail to render, and let the template
  \<open>index-redirect.html\<close> name the target it is executed with. For every redirect
  entry that the producer reaches in the redirect branch, that is, among the title
  pointers and in one of the five recognized namespaces, and whose target index
  resolves, the run returns normally and sends an article whose path is the full URL
  of the redirecting entry and whose payload is the redirect stub that names the
  base name of the full URL of the target.
\<close>

theorem redirect_entry_emitted:
  assumes "\<forall>j \<in> set (titlePtrs (Z idx)). stub_renders templates (Z idx) j"
    and "names_MainURL parse templates"
    and "i \<in> set (titlePtrs (Z idx))" "ArticleAtURLIdx (Z idx) i = Inr a"
    and "recognized (Namespace a)" "EntryType a = RedirectEntry"
    and "RedirectIndex a = Inr ridx" "ArticleAtURLIdx (Z idx) ridx = Inr ra"
  shows "\<exists>s d. ParseZIM templates idx h = Done s \<and>
           \<lparr>path = FullURL a, data = d\<rparr> \<in> set (emitted (trace s)) \<and>
           buildRedirectPage templates (path_Base (FullURL ra)) = Inr d \<and>
           parse d = Some (path_Base (FullURL ra))"
proof -
  let ?as = "decoded (Z idx) (titlePtrs (Z idx))"
  have k: "kept a"
    using assms(5,6) by (simp add: kept_def RedirectEntry_def DeletedEntry_def)
  have "entry_data templates (Z idx) a \<noteq> Fatalf"
    using assms(1,3,4) k by (auto simp: stub_renders_def)
  then obtain d where d: "buildRedirectPage templates (path_Base (FullURL ra)) = Inr d"
      "entry_data templates (Z idx) a = Payload d"
    using assms(6,7,8) by (auto simp: entry_data_def split: sum.splits)
  have e: "ExecuteTemplate templates ''index-redirect.html''
             [''MainURL'' \<mapsto> path_Base (FullURL ra)] = Inr d"
    using d(1) by (auto simp: buildRedirectPage_def split: sum.splits)
  have n: "parse d = Some (path_Base (FullURL ra))"
    using assms(2) e unfolding names_MainURL_def by blast
  obtain s where s: "ParseZIM templates idx h = Done s"
      "trace s = concat (map (entry_events templates (Z idx)) (filter kept ?as))"
    using run_Done [OF assms(1), of "\<lparr>trace = [], heap = h, bar = 0\<rparr>"]
    by (auto simp: ParseZIM_def)
  have "a \<in> set (filter kept ?as)"
    using decoded_member [OF assms(3,4)] k by simp
  moreover have "\<lparr>path = FullURL a, data = d\<rparr> \<in> set (emitted (entry_events templates (Z idx) a))"
    by (simp add: emitted_entry_events [OF d(2)])
  ultimately have "\<lparr>path = FullURL a, data = d\<rparr> \<in> set (emitted (trace s))"
    unfolding s(2) by (rule emitted_concat_member)
  then show ?thesis using s(1) d(1) n by blast
qed

text \<open>
  The redirect \<open>A/start\<close> of the small archive, as an instance of C5: its stub reads
  as \<open>home.html\<close>, the base name of \<open>A/home.html\<close>.
\<close>

theorem redirect_entry_emitted_witness:
  "\<exists>s. ParseZIM example_templates example_indexer store0 = Done s \<and>
     path_Base (FullURL a_home) = ''home.html'' \<and>
     \<lparr>path = ''A/start'', data = ''<meta http-equiv=refresh content=0;url=home.html>''\<rparr>
       \<in> set (emitted (trace s)) \<and>
     example_parse ''<meta http-equiv=refresh content=0;url=home.html>'' = Some ''home.html''"
proof -
  have r: "\<forall>j \<in> set (titlePtrs (Z example_indexer)). stub_renders example_templates (Z example_indexer) j"
    using example_succeeds by blast
  have i: "1 \<in> set (titlePtrs (Z example_indexer))"
      "ArticleAtURLIdx (Z example_indexer) 1 = Inr a_start"
      "ArticleAtURLIdx (Z example_indexer) 0 = Inr a_home"
    by (simp_all add: example_indexer_def example_reader_def)
  have a: "recognized (Namespace a_start)" "EntryType a_start = RedirectEntry"
      "RedirectIndex a_start = Inr 0" "FullURL a_start = ''A/start''"
    by (simp_all add: a_start_def recognized_def)
  have b: "path_Base (FullURL a_home) = ''home.html''"
    by (simp add: a_home_def path_Base_def)
  have t: "buildRedirectPage example_templates ''home.html'' =
             Inr ''<meta http-equiv=refresh content=0;url=home.html>''"
    by (simp add: buildRedirectPage_def ExecuteTemplate_def example_templates_def value_of_def)
  obtain s d where s: "ParseZIM example_templates example_indexer store0 = Done s"
      "\<lparr>path = FullURL a_start, data = d\<rparr> \<in> set (emitted (trace s))"
      "buildRedirectPage example_templates (path_Base (FullURL a_home)) = Inr d"
      "example_parse d = Some (path_Base (FullURL a_home))"
    using redirect_entry_emitted [OF r example_names_MainURL i(1,2) a(1,2,3) i(3), of store0]
    by blast
  have "d = ''<meta http-equiv=refresh content=0;url=home.html>''"
    using s(3) t b by simp
  then show ?thesis using s a(4) b by auto
qed

text \<open>
  Claim C6. \<open>MakeRedirectIndexPage\<close> returns the error \<open>no index found in the ZIM\<close>
  exactly when the main-page accessor of the decoder succeeds and returns no page.
\<close>

theorem MakeRedirectIndexPage_no_main_page:
  "MakeRedirectIndexPage templates AppendTarData idx tarFile fs = Inl ErrNoIndex
     \<longleftrightarrow> MainPage (Z idx) = Inr None"
  by (auto simp: MakeRedirectIndexPage_def split: sum.splits option.splits
           dest: buildRedirectPage_error)

text \<open>Both directions of C6: an archive without a main page, and the small archive.\<close>

theorem MakeRedirectIndexPage_no_main_page_witness:
  "MakeRedirectIndexPage example_templates record_append other_indexer ''out.tar'' [] = Inl ErrNoIndex \<and>
   MakeRedirectIndexPage example_templates record_append example_indexer ''out.tar'' [] \<noteq> Inl ErrNoIndex"
  using MakeRedirectIndexPage_no_main_page [of example_templates record_append other_indexer "''out.tar''" "[]"]
    MakeRedirectIndexPage_no_main_page [of example_templates record_append example_indexer "''out.tar''" "[]"]
  by (simp add: other_indexer_def empty_reader_def example_indexer_def example_reader_def)

text \<open>
  Claim C7 says that for every finite stream the file holds every header followed
  by its payload, and the trailer. \<open>TarZim\<close> sets the size and writes the payload of
  every article but leaves the type flag of the header zero. The second archive
  makes \<open>ParseZIM\<close> send the article \<open>A/dir/\<close> with one byte of payload; on that
  stream, with no failing file operation, the header is written as a directory, the
  write of the payload returns \<^verbatim>\<open>ErrWriteTooLong\<close> and \<open>TarZim\<close> returns it. The file
  holds neither the payload nor the article that follows nor the trailer.
\<close>

theorem TarZim_trailing_slash_aborts:
  "emitted (trace (state_of (ParseZIM example_templates dir_indexer store0))) =
     [\<lparr>path = ''A/dir/'', data = ''x''\<rparr>, \<lparr>path = ''A/home.html'', data = ''<p>home</p>''\<rparr>] \<and>
   TarZim env_ok ''out.tar''
       [\<lparr>path = ''A/dir/'', data = ''x''\<rparr>, \<lparr>path = ''A/home.html'', data = ''<p>home</p>''\<rparr>]
       Map.empty =
     (Some ErrWriteTooLong,
      [''out.tar'' \<mapsto>
         \<lparr>members = [\<lparr>hdr = \<lparr>Name = ''A/dir/'', Mode = 384, Size = 1\<rparr>, typeflag = TypeDir,
                      content = []\<rparr>],
          trailer = False\<rparr>]) \<and>
   snd (TarZim env_ok ''out.tar''
          [\<lparr>path = ''A/dir/'', data = ''x''\<rparr>, \<lparr>path = ''A/home.html'', data = ''<p>home</p>''\<rparr>]
          Map.empty) ''out.tar''
     \<noteq> Some (archive_of
          [\<lparr>path = ''A/dir/'', data = ''x''\<rparr>, \<lparr>path = ''A/home.html'', data = ''<p>home</p>''\<rparr>])"
proof -
  have t: "TarZim env_ok ''out.tar''
       [\<lparr>path = ''A/dir/'', data = ''x''\<rparr>, \<lparr>path = ''A/home.html'', data = ''<p>home</p>''\<rparr>]
       Map.empty =
     (Some ErrWriteTooLong,
      [''out.tar'' \<mapsto>
         \<lparr>members = [\<lparr>hdr = \<lparr>Name = ''A/dir/'', Mode = 384, Size = 1\<rparr>, typeflag = TypeDir,
                      content = []\<rparr>],
          trailer = False\<rparr>])"
    by (simp add: TarZim_def env_ok_def NewWriter_def WriteHeader_def Write_def
          HasSuffix_slash_def append_content_def Let_def)
  show ?thesis
    unfolding t by (simp add: run_dir archive_of_def)
qed

text \<open>
  Claim C8. For two indexers whose archive paths have the same base name, whatever
  their archives and their indexes, \<open>MakeErrorPage\<close> renders the same bytes and hands
  them to the same append: the results are equal for every append function.
\<close>

theorem MakeErrorPage_depends_on_base_name:
  assumes "filepath_Base (ZimPath idx1) = filepath_Base (ZimPath idx2)"
  shows "MakeErrorPage templates AppendTarData idx1 tarFile fs =
         MakeErrorPage templates AppendTarData idx2 tarFile fs"
  using assms by (simp add: MakeErrorPage_def)

text \<open>
  Two indexers with different archives and different indexes, and an append that
  records the rendered bytes, as an instance of C8.
\<close>

theorem MakeErrorPage_depends_on_base_name_witness:
  "filepath_Base (ZimPath example_indexer) = filepath_Base (ZimPath other_indexer) \<and>
   Z example_indexer \<noteq> Z other_indexer \<and> entries example_indexer \<noteq> entries other_indexer \<and>
   MakeErrorPage example_templates record_append example_indexer ''out.tar'' [] =
     Inr [(''out.tar'', ''error.html'', ''<h1>Not found in wiki.zim</h1>'')] \<and>
   MakeErrorPage example_templates record_append other_indexer ''out.tar'' [] =
     Inr [(''out.tar'', ''error.html'', ''<h1>Not found in wiki.zim</h1>'')]"
proof -
  have b: "filepath_Base (ZimPath example_indexer) = filepath_Base (ZimPath other_indexer)"
    by (simp add: example_indexer_def other_indexer_def filepath_Base_def path_Base_def)
  have d: "Z example_indexer \<noteq> Z other_indexer" "entries example_indexer \<noteq> entries other_indexer"
    by (simp_all add: example_indexer_def other_indexer_def example_reader_def empty_reader_def)
  have m: "MakeErrorPage example_templates record_append other_indexer ''out.tar'' [] =
     Inr [(''out.tar'', ''error.html'', ''<h1>Not found in wiki.zim</h1>'')]"
    by (simp add: MakeErrorPage_def other_indexer_def filepath_Base_def path_Base_def
          ExecuteTemplate_def example_templates_def value_of_def record_append_def NewBufferFile_def)
  show ?thesis
    using MakeErrorPage_depends_on_base_name [OF b, of example_templates record_append "''out.tar''" "[]"]
      b d m by simp
qed

text \<open>
  Claim C9. After \<open>New\<close> and any sequence of \<open>AddEntry\<close> calls, every path present in
  the table of the index maps to an entry with that path and with the metadata of
  the last call for the path.
\<close>

theorem AddEntry_last_write_wins:
  assumes "New NewReader zimPath h0 = (Inr idx, h1)"
    and "maps (AddEntry_calls idx calls h1) (entries idx) p = Some e"
  shows "Path e = p \<and> map_of (rev calls) p = Some (Metadata e)"
proof -
  have "maps h1 (entries idx) p = None"
    using New_entries_empty [OF assms(1)] by simp
  then show ?thesis
    using assms(2) by (auto simp: AddEntry_calls_maps split: option.splits)
qed

text \<open>Three calls, two of them for the same path, as an instance of C9.\<close>

theorem AddEntry_last_write_wins_witness:
  "\<exists>e. maps (AddEntry_calls example_indexer example_calls
               (snd (New open_example ''/data/wiki.zim'' store0))) (entries example_indexer) ''A/a'' = Some e \<and>
        Path e = ''A/a'' \<and> Metadata e = [''Title'' \<mapsto> ''second'']"
proof -
  let ?h1 = "\<lparr>maps = (\<lambda>_. Map.empty), fresh = Suc 0\<rparr>"
  have l: "maps (AddEntry_calls example_indexer example_calls ?h1) (entries example_indexer) ''A/a'' =
             Some \<lparr>Path = ''A/a'', Metadata = [''Title'' \<mapsto> ''second'']\<rparr>"
    by (simp add: example_calls_def AddEntry_def)
  show ?thesis
    using AddEntry_last_write_wins [OF New_example l] l by (simp add: New_example)
qed

text \<open>
  Claim C10. Let the pin header differ from \<open>Content-Type\<close> in canonical form. Then
  \<open>Upload\<close> passes one request to the client, whatever the client is: a POST to
  \<open>/bytes\<close> with the data as body, with the content type
  \<open>application/octet-stream\<close>, and with the pin header \<open>true\<close> exactly when the
  option \<open>Pin\<close> is set; without the option the request has no pin header.
\<close>

theorem Upload_headers:
  assumes "canon SwarmPinHeader \<noteq> canon ''Content-Type''"
  shows "\<exists>req. (\<forall>client :: request \<Rightarrow> 'r. Upload canon SwarmPinHeader client d opts = client req) \<and>
     httpMethod req = ''POST'' \<and> url req = ''/bytes'' \<and> body req = d \<and>
     header req (canon ''Content-Type'') = Some [''application/octet-stream''] \<and>
     (header req (canon SwarmPinHeader) = Some [''true''] \<longleftrightarrow> Pin opts) \<and>
     (\<not> Pin opts \<longrightarrow> header req (canon SwarmPinHeader) = None)"
proof (cases "Pin opts")
  case True
  let ?req = "\<lparr>httpMethod = ''POST'', url = ''/bytes'',
               header = [canon ''Content-Type'' \<mapsto> [''application/octet-stream''],
                         canon SwarmPinHeader \<mapsto> [''true'']],
               body = d\<rparr>"
  have "Upload canon SwarmPinHeader client d opts = client ?req" for client :: "request \<Rightarrow> 'r"
    using True assms by (simp add: Upload_def Header_Set_def Header_Add_def)
  then show ?thesis
    using True assms by (intro exI [of _ ?req]) simp
next
  case False
  let ?req = "\<lparr>httpMethod = ''POST'', url = ''/bytes'',
               header = [canon ''Content-Type'' \<mapsto> [''application/octet-stream'']],
               body = d\<rparr>"
  have "Upload canon SwarmPinHeader client d opts = client ?req" for client :: "request \<Rightarrow> 'r"
    using False by (simp add: Upload_def Header_Set_def)
  then show ?thesis
    using False assms by (intro exI [of _ ?req]) simp
qed

text \<open>The requests for both values of the option, with the identity as client, as an instance of C10.\<close>

theorem Upload_headers_witness:
  "header (Upload id ''Swarm-Pin'' id ''abc'' \<lparr>Pin = True\<rparr>) ''Swarm-Pin'' = Some [''true''] \<and>
   header (Upload id ''Swarm-Pin'' id ''abc'' \<lparr>Pin = False\<rparr>) ''Swarm-Pin'' = None \<and>
   header (Upload id ''Swarm-Pin'' id ''abc'' \<lparr>Pin = False\<rparr>) ''Content-Type'' = Some [''application/octet-stream'']"
proof -
  have n: "id ''Swarm-Pin'' \<noteq> id ''Content-Type''" by simp
  obtain r1 where r1: "\<forall>client :: request \<Rightarrow> request. Upload id ''Swarm-Pin'' client ''abc'' \<lparr>Pin = True\<rparr> = client r1"
      "header r1 (id ''Swarm-Pin'') = Some [''true''] \<longleftrightarrow> Pin \<lparr>Pin = True\<rparr>"
    using Upload_headers [where ?'r = request, OF n, of "''abc''" "\<lparr>Pin = True\<rparr>"] by blast
  obtain r2 where r2: "\<forall>client :: request \<Rightarrow> request. Upload id ''Swarm-Pin'' client ''abc'' \<lparr>Pin = False\<rparr> = client r2"
      "\<not> Pin \<lparr>Pin = False\<rparr> \<longrightarrow> header r2 (id ''Swarm-Pin'') = None"
      "header r2 (id ''Content-Type'') = Some [''application/octet-stream'']"
    using Upload_headers [where ?'r = request, OF n, of "''abc''" "\<lparr>Pin = False\<rparr>"] by blast
  have "Upload id ''Swarm-Pin'' id ''abc'' \<lparr>Pin = True\<rparr> = id r1"
       "Upload id ''Swarm-Pin'' id ''abc'' \<lparr>Pin = False\<rparr> = id r2"
    using r1(1) r2(1) by blast+
  then show ?thesis using r1(2) r2(2,3) by simp
qed

end
